theory Spec2Isabelle
  imports Complex_Main "HOL-Library.Stream"
begin

section \<open>The training script \<^verbatim>\<open>model.py\<close>\<close>

text \<open>
  The script builds a network with the layer constructors of a deep-learning framework and
  trains it from a generator. The embedding below follows the script: the constants of
  the driver, the batching generator \<^verbatim>\<open>_grouper\<close>, the class weights, the two
  correlation functions, the bin metrics and the graph that \<^verbatim>\<open>build_model\<close>
  assembles. Tensors are nested lists and \<^verbatim>\<open>float32\<close> values are real numbers:
  rounding is not modelled.
\<close>

subsection \<open>Python values\<close>

datatype error = IndexError | ValueError | TypeError

text \<open>\<^verbatim>\<open>xs[i]\<close> for a non-negative index; out of range raises.\<close>

definition getitem :: "'a list \<Rightarrow> nat \<Rightarrow> error + 'a" where
  "getitem xs i = (if i < length xs then Inr (xs ! i) else Inl IndexError)"

text \<open>\<^verbatim>\<open>str(i)\<close> of an integer: its decimal digits, with a sign.\<close>

definition digit_char :: "nat \<Rightarrow> char" where
  "digit_char d = ''0123456789'' ! (d mod 10)"

fun str_nat :: "nat \<Rightarrow> string" where
  "str_nat n = (if n < 10 then [digit_char n] else str_nat (n div 10) @ [digit_char n])"

definition str :: "int \<Rightarrow> string" where
  "str i = (if i < 0 then CHR ''-'' # str_nat (nat (- i)) else str_nat (nat i))"

text \<open>\<^verbatim>\<open>range(n)\<close> as a list of Python integers.\<close>

definition py_range :: "nat \<Rightarrow> int list" where
  "py_range n = map int [0..<n]"

text \<open>\<^verbatim>\<open>dict(pairs)\<close>: the pairs are stored in order, a later key replaces an earlier one.\<close>

definition dict :: "('k \<times> 'v) list \<Rightarrow> ('k \<rightharpoonup> 'v)" where
  "dict kvs = fold (\<lambda>(k, v) m. m(k \<mapsto> v)) kvs Map.empty"

subsection \<open>The constants of the driver\<close>

definition batches_per_epoch :: nat where "batches_per_epoch = 1000"
definition nb_epoch :: nat where "nb_epoch = 10"
definition batch_size :: nat where "batch_size = 32"

subsection \<open>Class weights\<close>

text \<open>
  \<^verbatim>\<open>class_weights = dict((str(i), 1 / (2 ** (7 - i))) for i in range(7))\<close>, under
  \<^verbatim>\<open>from __future__ import division\<close>: the quotient is a float, and a power of two
  is represented exactly.
\<close>

definition class_weight_of :: "int \<Rightarrow> real" where
  "class_weight_of i = 1 / real_of_int (2 ^ nat (7 - i))"

definition class_weights :: "string \<rightharpoonup> real" where
  "class_weights = dict (map (\<lambda>i. (str i, class_weight_of i)) (py_range 7))"

subsection \<open>The batching generator\<close>

text \<open>
  \<^verbatim>\<open>utils.generate_training_set\<close> is not part of the source at hand; the
  specification has it yield (dataset id, calcium reading, spike count) tuples
  indefinitely. It is a parameter here: a stream of triples, and \<^verbatim>\<open>iterable.next()\<close>
  takes the head and leaves the tail.
\<close>

type_synonym ('d, 'c, 's) example = "'d \<times> 'c \<times> 's"

definition iterable_next :: "'a stream \<Rightarrow> 'a \<times> 'a stream" where
  "iterable_next it = (shd it, stl it)"

text \<open>
  The generator expression \<^verbatim>\<open>(iterable.next() for _ in xrange(batch_size))\<close>, consumed
  in full by \<^verbatim>\<open>zip\<close>: \<open>k\<close> calls of \<^verbatim>\<open>next\<close>, in order.
\<close>

fun draw :: "nat \<Rightarrow> 'a stream \<Rightarrow> 'a list \<times> 'a stream" where
  "draw 0 it = ([], it)"
| "draw (Suc k) it =
     (let (x, it1) = iterable_next it; (xs, it2) = draw k it1 in (x # xs, it2))"

text \<open>
  A column of the transposed batch, as \<^verbatim>\<open>np.asarray\<close> receives it. \<^verbatim>\<open>zip(*rows)\<close>
  of triples is the list of the three columns; of no rows at all it is the empty list.
\<close>

datatype ('d, 'c, 's) column =
    Dataset_ids "'d list"
  | Calcium "'c list"
  | Spikes "'s list"

definition zip_star :: "('d, 'c, 's) example list \<Rightarrow> ('d, 'c, 's) column list" where
  "zip_star rows =
     (if rows = [] then []
      else [Dataset_ids (map fst rows),
            Calcium (map (fst \<circ> snd) rows),
            Spikes (map (snd \<circ> snd) rows)])"

definition asarray :: "('d, 'c, 's) column \<Rightarrow> ('d, 'c, 's) column" where
  "asarray col = col"

type_synonym ('d, 'c, 's) batch = "('d, 'c, 's) column list \<times> ('d, 'c, 's) column list"

text \<open>
  One turn of the \<^verbatim>\<open>while True\<close> loop of \<^verbatim>\<open>_grouper\<close>: what the next call of
  \<^verbatim>\<open>next\<close> on the generator yields, and the state of the underlying iterable after it.
\<close>

definition grouper_next ::
  "nat \<Rightarrow> ('d, 'c, 's) example stream \<Rightarrow>
     error + (('d, 'c, 's) batch \<times> ('d, 'c, 's) example stream)" where
  "grouper_next bs it =
     (let (rows, it') = draw bs it; batched = zip_star rows in
      case getitem batched 0 of Inl e \<Rightarrow> Inl e | Inr b0 \<Rightarrow>
     (case getitem batched 1 of Inl e \<Rightarrow> Inl e | Inr b1 \<Rightarrow>
     (case getitem batched 2 of Inl e \<Rightarrow> Inl e | Inr b2 \<Rightarrow>
        Inr (([asarray b0, asarray b1], [asarray b2]), it'))))"

text \<open>The first \<open>k\<close> batches the generator yields.\<close>

fun grouper_take ::
  "nat \<Rightarrow> nat \<Rightarrow> ('d, 'c, 's) example stream \<Rightarrow>
     error + (('d, 'c, 's) batch list \<times> ('d, 'c, 's) example stream)" where
  "grouper_take bs 0 it = Inr ([], it)"
| "grouper_take bs (Suc k) it =
     (case grouper_next bs it of Inl e \<Rightarrow> Inl e | Inr (b, it1) \<Rightarrow>
     (case grouper_take bs k it1 of Inl e \<Rightarrow> Inl e
      | Inr (rest, it2) \<Rightarrow> Inr (b # rest, it2)))"

definition grouper :: "('d, 'c, 's) example stream \<Rightarrow>
     error + (('d, 'c, 's) batch \<times> ('d, 'c, 's) example stream)" where
  "grouper = grouper_next batch_size"

text \<open>The rows a batch was assembled from, read back from its three arrays.\<close>

fun rows_of :: "('d, 'c, 's) batch \<Rightarrow> ('d, 'c, 's) example list" where
  "rows_of ([Dataset_ids ds, Calcium cs], [Spikes ss]) = zip ds (zip cs ss)"
| "rows_of _ = []"

text \<open>
  The shape of a batch in words: a pair of the two-element list of inputs (the array of
  dataset ids, the array of calcium series) and the one-element list of targets (the
  array of spike counts), all three read off the same rows in their order.
\<close>

definition restructured :: "('d, 'c, 's) example list \<Rightarrow> ('d, 'c, 's) batch" where
  "restructured rows =
     ([Dataset_ids (map fst rows), Calcium (map (fst \<circ> snd) rows)],
      [Spikes (map (snd \<circ> snd) rows)])"

subsection \<open>Tensors and the backend operations the script calls\<close>

text \<open>
  A tensor of rank one, two or three is a list, a list of lists, a list of lists of
  lists; the axes of a rank-three tensor are (sample, timestep, class). The operations
  are those of \<^verbatim>\<open>keras.backend\<close> that the script uses, at the ranks it uses them.
\<close>

type_synonym tensor1 = "real list"
type_synonym tensor2 = "real list list"
type_synonym tensor3 = "real list list list"

text \<open>The index of the first greatest entry of a row (of an empty row: 0).\<close>

fun argmax_scan :: "nat \<Rightarrow> real \<Rightarrow> nat \<Rightarrow> real list \<Rightarrow> nat" where
  "argmax_scan best v i [] = best"
| "argmax_scan best v i (x # xs) =
     (if v < x then argmax_scan i x (Suc i) xs else argmax_scan best v (Suc i) xs)"

definition argmax :: "real list \<Rightarrow> nat" where
  "argmax row = (case row of [] \<Rightarrow> 0 | x # xs \<Rightarrow> argmax_scan 0 x 1 xs)"

text \<open>\<^verbatim>\<open>K.argmax(y, axis=-1)\<close> of a rank-three tensor: an integer tensor of rank two.\<close>

definition K_argmax :: "tensor3 \<Rightarrow> int list list" where
  "K_argmax y = map (map (\<lambda>row. int (argmax row))) y"

definition K_cast_float32 :: "int list list \<Rightarrow> tensor2" where
  "K_cast_float32 m = map (map real_of_int) m"

text \<open>\<^verbatim>\<open>K.mean(x)\<close> with no axis: the mean of all entries.\<close>

definition K_mean1 :: "tensor1 \<Rightarrow> real" where
  "K_mean1 v = sum_list v / real (length v)"

definition K_mean2 :: "tensor2 \<Rightarrow> real" where
  "K_mean2 m = sum_list (concat m) / real (length (concat m))"

text \<open>\<^verbatim>\<open>K.sum(x, axis=-1)\<close>: the last axis is summed away.\<close>

definition K_sum2 :: "tensor2 \<Rightarrow> tensor1" where
  "K_sum2 m = map sum_list m"

definition K_sum3 :: "tensor3 \<Rightarrow> tensor2" where
  "K_sum3 y = map (map sum_list) y"

text \<open>Entrywise arithmetic, and arithmetic with a scalar.\<close>

definition sub_scalar2 :: "tensor2 \<Rightarrow> real \<Rightarrow> tensor2" where
  "sub_scalar2 m c = map (map (\<lambda>v. v - c)) m"

definition sub_scalar3 :: "tensor3 \<Rightarrow> real \<Rightarrow> tensor3" where
  "sub_scalar3 y c = map (map (map (\<lambda>v. v - c))) y"

definition add_scalar1 :: "tensor1 \<Rightarrow> real \<Rightarrow> tensor1" where
  "add_scalar1 v c = map (\<lambda>x. x + c) v"

definition mul1 :: "tensor1 \<Rightarrow> tensor1 \<Rightarrow> tensor1" where
  "mul1 u v = map2 (*) u v"

definition mul2 :: "tensor2 \<Rightarrow> tensor2 \<Rightarrow> tensor2" where
  "mul2 a b = map2 (map2 (*)) a b"

definition mul3 :: "tensor3 \<Rightarrow> tensor3 \<Rightarrow> tensor3" where
  "mul3 a b = map2 (map2 (map2 (*))) a b"

definition div1 :: "tensor1 \<Rightarrow> tensor1 \<Rightarrow> tensor1" where
  "div1 u v = map2 (/) u v"

definition K_square2 :: "tensor2 \<Rightarrow> tensor2" where
  "K_square2 m = map (map (\<lambda>v. v * v)) m"

definition K_square3 :: "tensor3 \<Rightarrow> tensor3" where
  "K_square3 y = map (map (map (\<lambda>v. v * v))) y"

definition K_sqrt :: "tensor1 \<Rightarrow> tensor1" where
  "K_sqrt v = map sqrt v"

text \<open>\<^verbatim>\<open>K.equal(x, i)\<close>, and the mean of a boolean tensor (true counts 1, false 0).\<close>

definition K_equal :: "int list list \<Rightarrow> int \<Rightarrow> bool list list" where
  "K_equal m i = map (map (\<lambda>v. v = i)) m"

definition K_mean_bool :: "bool list list \<Rightarrow> real" where
  "K_mean_bool m = K_mean2 (map (map of_bool) m)"

text \<open>The constant \<^verbatim>\<open>1e-12\<close>.\<close>

definition eps :: real where
  "eps = 1 / 10 ^ 12"

subsection \<open>The correlation metric and the correlation loss\<close>

text \<open>
  \<^verbatim>\<open>pearson_corr\<close>: both tensors are replaced by their label sequences (the argmax of
  each timestep, as floats); \<^verbatim>\<open>x_mean\<close> and \<^verbatim>\<open>y_mean\<close> subtract
  \<^verbatim>\<open>K.mean\<close> of the whole label tensor.
\<close>

definition corr_centered :: "tensor3 \<Rightarrow> tensor2" where
  "corr_centered y0 =
     (let y = K_cast_float32 (K_argmax y0) in sub_scalar2 y (K_mean2 y))"

definition pearson_corr_n :: "tensor3 \<Rightarrow> tensor3 \<Rightarrow> tensor1" where
  "pearson_corr_n y_true y_pred =
     (let x_mean = corr_centered y_true; y_mean = corr_centered y_pred
      in K_sum2 (mul2 x_mean y_mean))"

definition pearson_corr_d :: "tensor3 \<Rightarrow> tensor3 \<Rightarrow> tensor1" where
  "pearson_corr_d y_true y_pred =
     (let x_mean = corr_centered y_true; y_mean = corr_centered y_pred
      in mul1 (K_sum2 (K_square2 x_mean)) (K_sum2 (K_square2 y_mean)))"

definition pearson_corr_divisor :: "tensor3 \<Rightarrow> tensor3 \<Rightarrow> tensor1" where
  "pearson_corr_divisor y_true y_pred = add_scalar1 (K_sqrt (pearson_corr_d y_true y_pred)) eps"

definition pearson_corr :: "tensor3 \<Rightarrow> tensor3 \<Rightarrow> real" where
  "pearson_corr y_true y_pred =
     K_mean1 (div1 (pearson_corr_n y_true y_pred) (pearson_corr_divisor y_true y_pred))"

text \<open>
  \<^verbatim>\<open>pearson_loss\<close>: the tensors themselves are kept, and what is subtracted from
  each is \<^verbatim>\<open>K.mean\<close> of its label tensor. The sums run over the class axis, then
  over the time axis.
\<close>

definition loss_centered :: "tensor3 \<Rightarrow> tensor3" where
  "loss_centered y = sub_scalar3 y (K_mean2 (K_cast_float32 (K_argmax y)))"

definition pearson_loss_n :: "tensor3 \<Rightarrow> tensor3 \<Rightarrow> tensor1" where
  "pearson_loss_n y_true y_pred =
     (let x_mean = loss_centered y_true; y_mean = loss_centered y_pred
      in K_sum2 (K_sum3 (mul3 x_mean y_mean)))"

definition pearson_loss_d :: "tensor3 \<Rightarrow> tensor3 \<Rightarrow> tensor1" where
  "pearson_loss_d y_true y_pred =
     (let x_mean = loss_centered y_true; y_mean = loss_centered y_pred
      in mul1 (K_sum2 (K_sum3 (K_square3 x_mean))) (K_sum2 (K_sum3 (K_square3 y_mean))))"

definition pearson_loss_divisor :: "tensor3 \<Rightarrow> tensor3 \<Rightarrow> tensor1" where
  "pearson_loss_divisor y_true y_pred = add_scalar1 (K_sqrt (pearson_loss_d y_true y_pred)) eps"

definition pearson_loss :: "tensor3 \<Rightarrow> tensor3 \<Rightarrow> real" where
  "pearson_loss y_true y_pred =
     - K_mean1 (div1 (pearson_loss_n y_true y_pred) (pearson_loss_divisor y_true y_pred))"

text \<open>
  \<^verbatim>\<open>bin_percent(i)\<close> returns the metric \<^verbatim>\<open>_prct\<close>, which ignores its first argument
  and returns a dictionary with the one key \<^verbatim>\<open>str(i)\<close>.
\<close>

definition bin_percent :: "int \<Rightarrow> tensor3 \<Rightarrow> tensor3 \<Rightarrow> (string \<rightharpoonup> real)" where
  "bin_percent i = (\<lambda>_ y_pred0.
     (let y_pred = K_argmax y_pred0 in dict [(str i, K_mean_bool (K_equal y_pred i))]))"

subsection \<open>The statistics the specification names\<close>

text \<open>
  The Pearson statistic of two sequences, each centered by its own mean, with the
  \<^verbatim>\<open>1e-12\<close> of the script in the divisor; its mean over the samples of a batch of
  label sequences; and the same on the tensors themselves, each sample read as one sequence.
\<close>

definition centered :: "real list \<Rightarrow> real list" where
  "centered xs = map (\<lambda>x. x - K_mean1 xs) xs"

definition pearson_statistic :: "real list \<Rightarrow> real list \<Rightarrow> real" where
  "pearson_statistic xs ys =
     sum_list (map2 (*) (centered xs) (centered ys)) /
       (sqrt (sum_list (map (\<lambda>v. v * v) (centered xs)) *
              sum_list (map (\<lambda>v. v * v) (centered ys))) + eps)"

definition label_pearson :: "tensor3 \<Rightarrow> tensor3 \<Rightarrow> real" where
  "label_pearson y_true y_pred =
     K_mean1 (map2 pearson_statistic (K_cast_float32 (K_argmax y_true))
                                     (K_cast_float32 (K_argmax y_pred)))"

definition tensor_pearson :: "tensor3 \<Rightarrow> tensor3 \<Rightarrow> real" where
  "tensor_pearson y_true y_pred =
     K_mean1 (map2 (\<lambda>a b. pearson_statistic (concat a) (concat b)) y_true y_pred)"

text \<open>The fraction of the timestep predictions of a batch whose argmax is \<open>i\<close>.\<close>

definition fraction_in_bin :: "int \<Rightarrow> tensor3 \<Rightarrow> real" where
  "fraction_in_bin i y =
     real (length (filter (\<lambda>row. int (argmax row) = i) (concat y))) / real (length (concat y))"

text \<open>
  Two batches of one-hot tensors over the 7 classes, for evaluating the functions: the
  first has two samples of two timesteps, with the labels 0, 1 and 5, 6 against the
  predictions 1, 0 and 6, 5; the second has the one sample with the labels 5, 6 against
  the predictions 6, 5.
\<close>

definition one_hot :: "nat \<Rightarrow> real list" where
  "one_hot c = map (\<lambda>j. if j = c then 1 else 0) [0, 1, 2, 3, 4, 5, 6]"

definition two_samples_true :: tensor3 where
  "two_samples_true = [[one_hot 0, one_hot 1], [one_hot 5, one_hot 6]]"

definition two_samples_pred :: tensor3 where
  "two_samples_pred = [[one_hot 1, one_hot 0], [one_hot 6, one_hot 5]]"

definition one_sample_true :: tensor3 where
  "one_sample_true = [[one_hot 5, one_hot 6]]"

definition one_sample_pred :: tensor3 where
  "one_sample_pred = [[one_hot 6, one_hot 5]]"

subsection \<open>The graph of layers\<close>

text \<open>
  A call of a layer on a tensor is a node that records the layer's arguments as the
  script gives them and the node it is applied to. Defaults the script leaves to the
  framework are written out where a node needs them: the mode 0 of
  \<^verbatim>\<open>BatchNormalization\<close> in \<^verbatim>\<open>conv_bn\<close>.
\<close>

datatype dtype = Int32 | Float32
datatype activation = Relu | Softmax
datatype border_mode = Same | Valid
datatype initializer = Orthogonal
datatype regularizer = L2
datatype merge_mode = Concat

datatype recurrent = LSTM nat bool
  \<comment> \<open>output dimension, \<^verbatim>\<open>return_sequences\<close>\<close>

datatype dense = Dense nat activation "regularizer option"
  \<comment> \<open>output dimension, activation, \<^verbatim>\<open>W_regularizer\<close>\<close>

datatype node =
    Input "nat list" dtype string
    \<comment> \<open>shape, dtype, name\<close>
  | Convolution1D nat nat activation border_mode node
    \<comment> \<open>\<^verbatim>\<open>nb_filter\<close>, \<^verbatim>\<open>filter_length\<close>, activation, border mode\<close>
  | BatchNormalization nat int node
    \<comment> \<open>mode, axis\<close>
  | AveragePooling1D nat nat border_mode node
    \<comment> \<open>pool length, stride, border mode\<close>
  | Merge "node list" merge_mode int
    \<comment> \<open>inputs, mode, \<^verbatim>\<open>concat_axis\<close>\<close>
  | Flatten node
  | RepeatVector nat node
  | Embedding nat nat initializer node
    \<comment> \<open>input dimension, output dimension, init\<close>
  | Bidirectional recurrent node
  | TimeDistributed dense node

record model =
  kw_input :: "node list"
  kw_output :: "node list"

subsection \<open>The shapes the layers declare\<close>

text \<open>
  The layers are the framework's, not the script's. What follows is their contract as
  the framework documents it, as far as the properties below need it. First the shape
  each layer declares for its output, per sample: the batch axis comes first and is left
  out. \<open>None\<close> is a layer without a shape: its inputs do not fit, or, for
  \<^verbatim>\<open>Flatten\<close>, one of the dimensions to flatten is zero, which the layer refuses.
\<close>

fun conv_length :: "border_mode \<Rightarrow> nat \<Rightarrow> nat \<Rightarrow> nat \<Rightarrow> nat" where
  "conv_length Same len k stride = (len + stride - 1) div stride"
| "conv_length Valid len k stride = (len + stride - k) div stride"

fun concat_last :: "nat list option list \<Rightarrow> nat list option" where
  "concat_last [] = None"
| "concat_last [s] = s"
| "concat_last (s # ss) =
     (case (s, concat_last ss) of
        (Some a, Some b) \<Rightarrow>
          (if a \<noteq> [] \<and> b \<noteq> [] \<and> butlast a = butlast b
           then Some (butlast a @ [last a + last b]) else None)
      | _ \<Rightarrow> None)"

fun output_shape :: "node \<Rightarrow> nat list option" where
  "output_shape (Input shp dt name) = Some shp"
| "output_shape (Convolution1D f k a b x) =
     (case output_shape x of Some [t, c] \<Rightarrow> Some [conv_length b t k 1, f] | _ \<Rightarrow> None)"
| "output_shape (BatchNormalization m ax x) = output_shape x"
| "output_shape (AveragePooling1D p st b x) =
     (case output_shape x of Some [t, c] \<Rightarrow> Some [conv_length b t p st, c] | _ \<Rightarrow> None)"
| "output_shape (Merge xs m ax) =
     (if ax = - 1 then concat_last (map output_shape xs) else None)"
| "output_shape (Flatten x) =
     (case output_shape x of
        Some shp \<Rightarrow> if 0 \<in> set shp then None else Some [prod_list shp]
      | None \<Rightarrow> None)"
| "output_shape (RepeatVector k x) =
     (case output_shape x of Some [d] \<Rightarrow> Some [k, d] | _ \<Rightarrow> None)"
| "output_shape (Embedding i d ini x) =
     (case output_shape x of Some [l] \<Rightarrow> Some [l, d] | _ \<Rightarrow> None)"
| "output_shape (Bidirectional (LSTM u rs) x) =
     (case output_shape x of Some [t, c] \<Rightarrow> Some (if rs then [t, 2 * u] else [2 * u])
      | _ \<Rightarrow> None)"
| "output_shape (TimeDistributed (Dense u a r) x) =
     (case output_shape x of Some [t, c] \<Rightarrow> Some [t, u] | _ \<Rightarrow> None)"

text \<open>
  Calling a layer on a tensor computes the shape of the result at once, and raises when
  there is none.
\<close>

definition layer_call :: "node \<Rightarrow> error + node" where
  "layer_call x = (case output_shape x of None \<Rightarrow> Inl ValueError | Some shp \<Rightarrow> Inr x)"

subsection \<open>The model builder\<close>

text \<open>
  The number of timesteps is a natural number. Of the layer calls of
  \<^verbatim>\<open>build_model\<close> the call of \<^verbatim>\<open>Flatten\<close> is the one that can raise, and
  it is the first after the two inputs; when it returns, every later call has a shape
  (lemma \<open>output_shape_model\<close> below).
\<close>

definition conv_bn :: "node \<Rightarrow> nat \<Rightarrow> nat \<Rightarrow> node" where
  "conv_bn x0 nb_filter filter_length =
     (let x = Convolution1D nb_filter filter_length Relu Same x0;
          x = BatchNormalization 0 1 x
      in x)"

definition inception_cell :: "node \<Rightarrow> node" where
  "inception_cell x =
     (let branch1x1 = conv_bn x 64 1;
          branch5x5 = conv_bn x 48 1;
          branch5x5 = conv_bn branch5x5 64 5;
          branch3x3dbl = conv_bn x 64 1;
          branch3x3dbl = conv_bn branch3x3dbl 96 3;
          branch3x3dbl = conv_bn branch3x3dbl 96 3;
          branch_pool = AveragePooling1D 3 1 Same x;
          branch_pool = conv_bn branch_pool 32 1;
          x = Merge [branch1x1, branch5x5, branch3x3dbl, branch_pool] Concat (- 1)
      in x)"

definition build_model :: "nat \<Rightarrow> error + model" where
  "build_model timesteps =
     (let dataset = Input [1] Int32 ''dataset'';
          calcium = Input [timesteps, 1] Float32 ''calcium''
      in case layer_call (Flatten (RepeatVector timesteps dataset)) of
           Inl e \<Rightarrow> Inl e
         | Inr flattened \<Rightarrow>
            (let data_emb = Embedding 10 1 Orthogonal flattened;
                 calcium_norm = BatchNormalization 2 1 calcium;
                 hidden = Merge [calcium_norm, data_emb] Concat (- 1);
                 hidden = fold (\<lambda>_ h. inception_cell h) (py_range 3) hidden;
                 hidden = Bidirectional (LSTM 64 True) hidden;
                 out = TimeDistributed (Dense 7 Softmax (Some L2)) hidden
             in Inr \<lparr>kw_input = [dataset, calcium], kw_output = [out]\<rparr>))"




text \<open>
  The node the loop of \<^verbatim>\<open>build_model\<close> starts from: the normalized calcium input
  and the embedded dataset id, concatenated along the last axis.
\<close>

definition merged_inputs :: "nat \<Rightarrow> node" where
  "merged_inputs timesteps =
     Merge [BatchNormalization 2 1 (Input [timesteps, 1] Float32 ''calcium''),
            Embedding 10 1 Orthogonal
              (Flatten (RepeatVector timesteps (Input [1] Int32 ''dataset'')))]
       Concat (- 1)"


subsection \<open>The values the layers compute\<close>

text \<open>
  A dense layer of \<open>u\<close> units holds one weight vector and one bias per unit; the
  time-distributed wrapper applies it to every timestep of every sample.
\<close>

record dense_weights =
  kernel :: "real list list"
  bias :: "real list"

definition built :: "dense \<Rightarrow> dense_weights \<Rightarrow> bool" where
  "built d w = (case d of Dense u a r \<Rightarrow> length (kernel w) = u \<and> length (bias w) = u)"

definition softmax :: "real list \<Rightarrow> real list" where
  "softmax z = map (\<lambda>v. exp v / sum_list (map exp z)) z"

fun activation_fn :: "activation \<Rightarrow> real list \<Rightarrow> real list" where
  "activation_fn Relu z = map (max 0) z"
| "activation_fn Softmax z = softmax z"

fun dense_call :: "dense \<Rightarrow> dense_weights \<Rightarrow> real list \<Rightarrow> real list" where
  "dense_call (Dense u a r) w x =
     activation_fn a (map2 (\<lambda>col c. sum_list (map2 (*) x col) + c) (kernel w) (bias w))"

definition time_distributed_call :: "dense \<Rightarrow> dense_weights \<Rightarrow> tensor3 \<Rightarrow> tensor3" where
  "time_distributed_call d w hidden = map (map (dense_call d w)) hidden"





subsection \<open>Compiling and fitting\<close>

text \<open>
  The two calls that end the script are calls by keyword. \<^verbatim>\<open>compile\<close> has the
  parameters \<^verbatim>\<open>optimizer\<close>, \<^verbatim>\<open>loss\<close>, \<^verbatim>\<open>metrics\<close>, \<^verbatim>\<open>loss_weights\<close>
  and \<^verbatim>\<open>sample_weight_mode\<close>; every other keyword is kept aside and handed to the
  backend when it builds the training function. Class weights are a parameter of the
  fit call, \<^verbatim>\<open>class_weight\<close>, which the script leaves at its default.
\<close>

datatype metric = Pearson_corr | Bin_percent int
datatype loss = Pearson_loss

datatype argument =
    Name string
  | Loss_fn loss
  | Metric_fns "metric list"
  | Weights "string \<rightharpoonup> real"

type_synonym kwargs = "(string \<times> argument) list"

definition model_compile :: kwargs where
  "model_compile =
     [(''optimizer'', Name ''adam''),
      (''loss'', Loss_fn Pearson_loss),
      (''metrics'', Metric_fns ([Pearson_corr] @ map Bin_percent (py_range 7))),
      (''class_weights'', Weights class_weights)]"

definition compile_parameters :: "string list" where
  "compile_parameters =
     [''optimizer'', ''loss'', ''metrics'', ''loss_weights'', ''sample_weight_mode'']"

record compiled =
  settings :: kwargs
  function_kwargs :: kwargs

definition compile :: "kwargs \<Rightarrow> compiled" where
  "compile kws =
     \<lparr>settings = filter (\<lambda>(k, v). k \<in> set compile_parameters) kws,
      function_kwargs = filter (\<lambda>(k, v). k \<notin> set compile_parameters) kws\<rparr>"

text \<open>
  The training function is built when fitting starts. The Theano backend passes the
  keywords kept aside on to its function constructor, which raises on a keyword it does
  not have; the TensorFlow backend ignores them.
\<close>

datatype backend = Theano | TensorFlow

definition theano_function_parameters :: "string list" where
  "theano_function_parameters =
     [''mode'', ''givens'', ''no_default_updates'', ''accept_inplace'', ''name'',
      ''rebuild_strict'', ''profile'']"

definition make_train_function :: "backend \<Rightarrow> compiled \<Rightarrow> error + unit" where
  "make_train_function be c =
     (case be of
        Theano \<Rightarrow>
          if list_all (\<lambda>(k, v). k \<in> set theano_function_parameters) (function_kwargs c)
          then Inr () else Inl TypeError
      | TensorFlow \<Rightarrow> Inr ())"

text \<open>
  The framework's loop, as its documentation has it: an epoch draws batches from the
  generator until it has seen \<^verbatim>\<open>samples_per_epoch\<close> samples, a batch counting
  for the length of its first input array; \<^verbatim>\<open>nb_epoch\<close> epochs are run. Nothing
  bounds the number of batches of an epoch beforehand, so an epoch is a partial function:
  \<open>None\<close> is an epoch that never ends. The framework reads the generator ahead of
  the training through a queue, so how far the iterable has been read when fitting
  returns is not determined by the loop; what is determined, and what
  \<open>fit_generator\<close> returns, is the number of batches each epoch trained on. The
  stream inside the loop is the stream of batches not yet trained on.
\<close>

type_synonym ('d, 'c, 's) generator =
  "('d, 'c, 's) example stream \<Rightarrow> error + (('d, 'c, 's) batch \<times> ('d, 'c, 's) example stream)"

record ('d, 'c, 's) fit_call =
  kw_generator :: "('d, 'c, 's) generator"
  kw_samples_per_epoch :: nat
  kw_nb_epoch :: nat
  kw_class_weight :: "(string \<rightharpoonup> real) option"

definition model_fit_generator :: "('d, 'c, 's) fit_call" where
  "model_fit_generator =
     \<lparr>kw_generator = grouper,
      kw_samples_per_epoch = batches_per_epoch * batch_size,
      kw_nb_epoch = nb_epoch,
      kw_class_weight = None\<rparr>"

fun len :: "('d, 'c, 's) column \<Rightarrow> nat" where
  "len (Dataset_ids xs) = length xs"
| "len (Calcium xs) = length xs"
| "len (Spikes xs) = length xs"

definition samples_of :: "('d, 'c, 's) batch \<Rightarrow> nat" where
  "samples_of b = (case fst b of [] \<Rightarrow> 0 | x0 # _ \<Rightarrow> len x0)"

partial_function (option) fit_epoch ::
  "('d, 'c, 's) generator \<Rightarrow> nat \<Rightarrow> nat \<Rightarrow> nat \<Rightarrow> ('d, 'c, 's) example stream \<Rightarrow>
     (error + (nat \<times> ('d, 'c, 's) example stream)) option" where
  "fit_epoch gen samples_per_epoch samples_seen batch_index it =
     (if samples_seen < samples_per_epoch then
        (case gen it of
           Inl e \<Rightarrow> Some (Inl e)
         | Inr (b, it') \<Rightarrow>
             fit_epoch gen samples_per_epoch (samples_seen + samples_of b) (Suc batch_index) it')
      else Some (Inr (batch_index, it)))"

fun fit_epochs ::
  "('d, 'c, 's) generator \<Rightarrow> nat \<Rightarrow> nat \<Rightarrow> ('d, 'c, 's) example stream \<Rightarrow>
     (error + (nat list \<times> ('d, 'c, 's) example stream)) option" where
  "fit_epochs gen samples_per_epoch 0 it = Some (Inr ([], it))"
| "fit_epochs gen samples_per_epoch (Suc k) it =
     (case fit_epoch gen samples_per_epoch 0 0 it of
        None \<Rightarrow> None
      | Some (Inl e) \<Rightarrow> Some (Inl e)
      | Some (Inr (n, it')) \<Rightarrow>
          (case fit_epochs gen samples_per_epoch k it' of
             None \<Rightarrow> None
           | Some (Inl e) \<Rightarrow> Some (Inl e)
           | Some (Inr (ns, it'')) \<Rightarrow> Some (Inr (n # ns, it''))))"

definition fit_generator ::
  "backend \<Rightarrow> compiled \<Rightarrow> ('d, 'c, 's) fit_call \<Rightarrow> ('d, 'c, 's) example stream \<Rightarrow>
     (error + nat list) option" where
  "fit_generator be c call it =
     (case make_train_function be c of
        Inl e \<Rightarrow> Some (Inl e)
      | Inr _ \<Rightarrow>
          map_option (map_sum id fst)
            (fit_epochs (kw_generator call) (kw_samples_per_epoch call) (kw_nb_epoch call) it))"

section \<open>Properties\<close>

subsection \<open>The batching generator\<close>

lemma draw_stake: "draw k it = (stake k it, sdrop k it)"
  by (induction k arbitrary: it) (simp_all add: iterable_next_def)

lemma zip_unzip3:
  "zip (map fst rows) (zip (map (fst \<circ> snd) rows) (map (snd \<circ> snd) rows)) = rows"
  by (induction rows) auto

lemma rows_of_restructured: "rows_of (restructured rows) = rows"
  by (simp add: restructured_def zip_unzip3)

lemma grouper_next_eq:
  assumes "0 < bs"
  shows "grouper_next bs it = Inr (restructured (stake bs it), sdrop bs it)"
  using assms
  by (simp add: grouper_next_def draw_stake zip_star_def getitem_def asarray_def
      restructured_def)

lemma upt_Suc_shift: "[0..<Suc k] = 0 # map Suc [0..<k]"
  by (simp add: upt_conv_Cons map_Suc_upt del: upt_Suc)

lemma grouper_take_eq:
  assumes "0 < bs"
  shows "grouper_take bs k it =
    Inr (map (\<lambda>j. restructured (stake bs (sdrop (bs * j) it))) [0..<k], sdrop (bs * k) it)"
proof (induction k arbitrary: it)
  case 0
  show ?case by simp
next
  case (Suc k)
  have "grouper_take bs (Suc k) it =
      Inr (restructured (stake bs it) #
           map (\<lambda>j. restructured (stake bs (sdrop (bs * j) (sdrop bs it)))) [0..<k],
           sdrop (bs * k) (sdrop bs it))"
    by (simp add: grouper_next_eq[OF assms] Suc.IH)
  also have "\<dots> = Inr (map (\<lambda>j. restructured (stake bs (sdrop (bs * j) it))) [0..<Suc k],
           sdrop (bs * Suc k) it)"
    by (simp add: upt_Suc_shift comp_def add.commute del: upt_Suc)
  finally show ?case .
qed

lemma concat_stake_blocks:
  "concat (map (\<lambda>j. stake bs (sdrop (bs * j) it)) [0..<k]) = stake (bs * k) it"
proof (induction k)
  case 0
  show ?case by simp
next
  case (Suc k)
  then show ?case by (simp add: add.commute)
qed

text \<open>
  C7. Whatever the stream of training examples, the first \<open>k\<close> batches of
  \<^verbatim>\<open>_grouper\<close> are yielded without an error, and batch number \<open>j\<close> (from 0) is
  made of the 32 examples at positions \<open>32 j\<close> to \<open>32 j + 31\<close> of the stream, in
  their order, as the pair of the two input arrays and the one target array. The
  iterable is left exactly behind the last example used, and the rows of the batches, put
  end to end, are the first \<open>32 k\<close> examples of the stream: none is dropped, moved or
  used twice.
\<close>

theorem grouper_batches_consecutive:
  "grouper_take batch_size k it =
     Inr (map (\<lambda>j. restructured (stake 32 (sdrop (32 * j) it))) [0..<k], sdrop (32 * k) it) \<and>
   concat (map (\<lambda>j. rows_of (restructured (stake 32 (sdrop (32 * j) it)))) [0..<k])
     = stake (32 * k) it"
  using grouper_take_eq[of 32 k it] concat_stake_blocks[of 32 it k]
  by (simp add: batch_size_def rows_of_restructured)

subsection \<open>Class weights\<close>

lemma upt7: "[0..<7] = [0, 1, 2, 3, 4, 5, 6]"
  by (simp add: upt_rec)

lemma str_digits:
  "str 0 = ''0''" "str 1 = ''1''" "str 2 = ''2''" "str 3 = ''3''"
  "str 4 = ''4''" "str 5 = ''5''" "str 6 = ''6''"
  by (simp_all add: str_def digit_char_def)

lemma class_weights_table:
  "class_weights =
     [''0'' \<mapsto> 1 / 128, ''1'' \<mapsto> 1 / 64, ''2'' \<mapsto> 1 / 32, ''3'' \<mapsto> 1 / 16,
      ''4'' \<mapsto> 1 / 8, ''5'' \<mapsto> 1 / 4, ''6'' \<mapsto> 1 / 2]"
  by (simp add: class_weights_def dict_def py_range_def upt7 str_digits class_weight_of_def)

lemma int_cases7:
  "i \<in> {0..6::int} \<Longrightarrow> i = 0 \<or> i = 1 \<or> i = 2 \<or> i = 3 \<or> i = 4 \<or> i = 5 \<or> i = 6"
  by auto

lemma class_weights_lookup:
  "i \<in> {0..6} \<Longrightarrow> class_weights (str i) = Some (1 / 2 ^ nat (7 - i))"
  by (drule int_cases7) (auto simp: class_weights_table str_digits)

lemma class_weights_dom: "dom class_weights = str ` {0..6}"
proof -
  have "{0..6::int} = {0, 1, 2, 3, 4, 5, 6}" by auto
  then show ?thesis by (auto simp: class_weights_table str_digits)
qed

lemma class_weights_mono:
  "i \<in> {0..6} \<Longrightarrow> j \<in> {0..6} \<Longrightarrow> i < j \<Longrightarrow>
     the (class_weights (str i)) < the (class_weights (str j))"
  apply (drule int_cases7)+
  apply (elim disjE; simp add: class_weights_table str_digits)
  done

subsection \<open>What becomes of the class weights\<close>

lemma compile_model_compile:
  "compile model_compile =
     \<lparr>settings = [(''optimizer'', Name ''adam''), (''loss'', Loss_fn Pearson_loss),
                  (''metrics'', Metric_fns ([Pearson_corr] @ map Bin_percent (py_range 7)))],
      function_kwargs = [(''class_weights'', Weights class_weights)]\<rparr>"
  by (simp add: compile_def model_compile_def compile_parameters_def)

lemma make_train_function_theano:
  "make_train_function Theano (compile model_compile) = Inl TypeError"
  by (simp add: make_train_function_def compile_model_compile theano_function_parameters_def)

lemma make_train_function_tensorflow:
  "make_train_function TensorFlow c = Inr ()"
  by (simp add: make_train_function_def)

text \<open>
  C5. The keys of \<^verbatim>\<open>class_weights\<close> are the strings \<^verbatim>\<open>str(i)\<close> for \<open>i\<close> from 0
  to 6 and no others; the weight under \<^verbatim>\<open>str(i)\<close> is \<open>1 / 2 ^ (7 - i)\<close>; the weights
  grow strictly with \<open>i\<close>, from 1/128 for class 0 to 1/2 for class 6. The mapping is
  given to \<^verbatim>\<open>model.compile\<close> under the keyword \<^verbatim>\<open>class_weights\<close>, which is not
  a parameter of \<^verbatim>\<open>compile\<close>: it reaches none of the settings of the compiled
  model and is kept aside for the backend, where Theano raises on it and TensorFlow
  ignores it. The fit call leaves \<^verbatim>\<open>class_weight\<close>, the parameter that weighs
  the classes during training, unset. The weights are what the script's comment
  announces, and they do not take effect during training.
\<close>

theorem class_weights_kept_from_training:
  "dom class_weights = str ` {0..6} \<and>
   (\<forall>i\<in>{0..6}. class_weights (str i) = Some (1 / 2 ^ nat (7 - i))) \<and>
   (\<forall>i\<in>{0..6}. \<forall>j\<in>{0..6}. i < j \<longrightarrow>
       the (class_weights (str i)) < the (class_weights (str j))) \<and>
   class_weights (str 0) = Some (1 / 128) \<and> class_weights (str 6) = Some (1 / 2) \<and>
   map_of model_compile ''class_weights'' = Some (Weights class_weights) \<and>
   ''class_weights'' \<notin> set compile_parameters \<and>
   map_of (settings (compile model_compile)) ''class_weights'' = None \<and>
   function_kwargs (compile model_compile) = [(''class_weights'', Weights class_weights)] \<and>
   kw_class_weight (model_fit_generator :: ('d, 'c, 's) fit_call) = None \<and>
   make_train_function Theano (compile model_compile) = Inl TypeError \<and>
   make_train_function TensorFlow (compile model_compile) = Inr ()"
proof -
  have vals: "dom class_weights = str ` {0..6} \<and>
   (\<forall>i\<in>{0..6}. class_weights (str i) = Some (1 / 2 ^ nat (7 - i))) \<and>
   (\<forall>i\<in>{0..6}. \<forall>j\<in>{0..6}. i < j \<longrightarrow>
       the (class_weights (str i)) < the (class_weights (str j))) \<and>
   class_weights (str 0) = Some (1 / 128) \<and> class_weights (str 6) = Some (1 / 2)"
    using class_weights_dom class_weights_lookup class_weights_mono
    by (simp add: class_weights_table str_digits)
  have passed: "map_of model_compile ''class_weights'' = Some (Weights class_weights)"
    by (simp add: model_compile_def)
  have stray: "''class_weights'' \<notin> set compile_parameters"
    by (simp add: compile_parameters_def)
  have unset: "map_of (settings (compile model_compile)) ''class_weights'' = None"
    by (simp add: compile_model_compile)
  have aside: "function_kwargs (compile model_compile) = [(''class_weights'', Weights class_weights)]"
    by (simp add: compile_model_compile)
  have fit: "kw_class_weight (model_fit_generator :: ('d, 'c, 's) fit_call) = None"
    by (simp add: model_fit_generator_def)
  show ?thesis
    using vals passed stray unset aside fit make_train_function_theano
      make_train_function_tensorflow[of "compile model_compile"]
    by blast
qed

theorem class_weights_kept_from_training_witness:
  "class_weights (str 3) = Some (1 / 16) \<and> class_weights ''2'' = Some (1 / 32) \<and>
   the (class_weights (str 2)) < the (class_weights (str 3))"
proof -
  have m: "(3::int) \<in> {0..6}" "(2::int) \<in> {0..6}" "(2::int) < 3" by simp_all
  from class_weights_kept_from_training
  have v: "\<forall>i\<in>{0..6}. class_weights (str i) = Some (1 / 2 ^ nat (7 - i))"
    and o: "\<forall>i\<in>{0..6}. \<forall>j\<in>{0..6}. i < j \<longrightarrow>
       the (class_weights (str i)) < the (class_weights (str j))"
    by blast+
  from v m have "class_weights (str 3) = Some (1 / 2 ^ nat (7 - 3))"
    and "class_weights (str 2) = Some (1 / 2 ^ nat (7 - 2))" by blast+
  moreover from o m have "the (class_weights (str 2)) < the (class_weights (str 3))" by blast
  ultimately show ?thesis by (simp add: str_digits)
qed

subsection \<open>The fit loop\<close>

lemma samples_of_restructured: "samples_of (restructured rows) = length rows"
  by (simp add: samples_of_def restructured_def)

lemma ceil_step:
  assumes "0 < bs" "0 < (d::nat)"
  shows "(d + bs - 1) div bs = Suc ((d - bs + bs - 1) div bs)"
proof (cases "d < bs")
  case True
  have "(d + bs - 1) div bs = 1"
    by (rule div_nat_eqI) (use True assms in simp_all)
  with True assms show ?thesis by simp
next
  case False
  define m where "m = d - bs + bs - 1"
  have "d + bs - 1 = m + bs" using False assms by (simp add: m_def)
  then have "(d + bs - 1) div bs = (m + bs) div bs" by simp
  also have "\<dots> = Suc (m div bs)" using assms(1) by simp
  finally show ?thesis by (simp only: m_def)
qed

lemma fit_epoch_eq:
  assumes "0 < bs"
  shows "fit_epoch (grouper_next bs) spe seen idx it =
    Some (Inr (idx + (spe - seen + bs - 1) div bs,
               sdrop (bs * ((spe - seen + bs - 1) div bs)) it))"
proof (induction "spe - seen" arbitrary: seen idx it rule: less_induct)
  case less
  show ?case
  proof (cases "seen < spe")
    case False
    then have "(spe - seen + bs - 1) div bs = 0" using assms by simp
    with False show ?thesis by (subst fit_epoch.simps) simp
  next
    case True
    define k where "k = (spe - (seen + bs) + bs - 1) div bs"
    have step: "(spe - seen + bs - 1) div bs = Suc k"
      using ceil_step[OF assms, of "spe - seen"] True by (simp add: k_def)
    have "spe - (seen + bs) < spe - seen" using True assms by simp
    note IH = less[OF this, of "Suc idx" "sdrop bs it"]
    have "fit_epoch (grouper_next bs) spe seen idx it =
        fit_epoch (grouper_next bs) spe (seen + bs) (Suc idx) (sdrop bs it)"
      by (subst fit_epoch.simps)
        (simp add: True grouper_next_eq[OF assms] samples_of_restructured)
    also have "\<dots> = Some (Inr (Suc idx + k, sdrop (bs * k) (sdrop bs it)))"
      using IH by (simp add: k_def)
    also have "\<dots> = Some (Inr (idx + Suc k, sdrop (bs * Suc k) it))"
      by simp
    finally show ?thesis by (simp only: step)
  qed
qed

lemma fit_epochs_eq:
  assumes "0 < bs"
  shows "fit_epochs (grouper_next bs) spe k it =
    Some (Inr (replicate k ((spe + bs - 1) div bs), sdrop (bs * ((spe + bs - 1) div bs) * k) it))"
proof (induction k arbitrary: it)
  case 0 show ?case by simp
next
  case (Suc k)
  show ?case by (simp add: fit_epoch_eq[OF assms] Suc add.commute algebra_simps)
qed


text \<open>
  C6. The call of \<^verbatim>\<open>fit_generator\<close> is given \<^verbatim>\<open>nb_epoch = 10\<close> and
  \<^verbatim>\<open>samples_per_epoch = 1000 * 32 = 32000\<close>, and the generator never runs out: it
  yields \<open>k\<close> batches for every \<open>k\<close>. Under the TensorFlow backend, which ignores the
  stray keyword of \<^verbatim>\<open>compile\<close>, fitting returns after exactly 10 epochs, each
  trained on exactly 1000 batches of 32 samples. Under the Theano backend building the
  training function raises before any batch is trained on, and no epoch is run.
\<close>

theorem fit_generator_by_backend:
  "kw_nb_epoch (model_fit_generator :: ('d, 'c, 's) fit_call) = 10 \<and>
   kw_samples_per_epoch (model_fit_generator :: ('d, 'c, 's) fit_call) = 32000 \<and>
   (\<exists>batches it'. grouper_take batch_size k (it :: ('d, 'c, 's) example stream) = Inr (batches, it')
      \<and> length batches = k) \<and>
   fit_generator Theano (compile model_compile) model_fit_generator it = Some (Inl TypeError) \<and>
   fit_generator TensorFlow (compile model_compile) model_fit_generator it
     = Some (Inr (replicate 10 1000))"
proof -
  have c: "(32000 + 32 - 1) div 32 = (1000::nat)" by simp
  have "fit_epochs (kw_generator model_fit_generator)
          (kw_samples_per_epoch model_fit_generator) (kw_nb_epoch model_fit_generator) it
        = fit_epochs (grouper_next 32) 32000 10 it"
    by (simp add: model_fit_generator_def grouper_def batch_size_def
        nb_epoch_def batches_per_epoch_def)
  also have "\<dots> = Some (Inr (replicate 10 1000, sdrop (32 * 1000 * 10) it))"
    using fit_epochs_eq[of 32 32000 10 it] by (simp only: c)
  finally have epochs: "fit_epochs (kw_generator model_fit_generator)
          (kw_samples_per_epoch model_fit_generator) (kw_nb_epoch model_fit_generator) it
        = Some (Inr (replicate 10 1000, sdrop (32 * 1000 * 10) it))" .
  have run: "fit_generator TensorFlow (compile model_compile) model_fit_generator it
      = Some (Inr (replicate 10 1000))"
    unfolding fit_generator_def make_train_function_tensorflow epochs by simp
  have crash: "fit_generator Theano (compile model_compile) model_fit_generator it
      = Some (Inl TypeError)"
    by (simp add: fit_generator_def make_train_function_theano)
  have unending: "\<exists>batches it'. grouper_take batch_size k it = Inr (batches, it') \<and> length batches = k"
    by (simp add: grouper_take_eq batch_size_def)
  show ?thesis using run crash unending
    by (simp add: model_fit_generator_def batch_size_def nb_epoch_def batches_per_epoch_def)
qed

subsection \<open>The correlation metric and loss on example batches\<close>

lemmas tensor_ops = K_argmax_def K_cast_float32_def K_mean1_def K_mean2_def K_sum2_def K_sum3_def
  sub_scalar2_def sub_scalar3_def add_scalar1_def mul1_def mul2_def mul3_def div1_def
  K_square2_def K_square3_def K_sqrt_def

lemma argmax_one_hot:
  "argmax (one_hot 0) = 0" "argmax (one_hot 1) = 1" "argmax (one_hot (Suc 0)) = Suc 0"
  "argmax (one_hot 5) = 5" "argmax (one_hot 6) = 6"
  by (simp_all add: argmax_def one_hot_def)

lemma sqrt_169: "sqrt 169 = 13"
  by (rule real_sqrt_unique) simp_all

lemma sqrt_fourth: "sqrt (1 / 4) = 1 / 2"
  by (rule real_sqrt_unique) (simp_all add: power2_eq_square)

lemma corr_centered_two_true: "corr_centered two_samples_true = [[-3, -2], [2, 3]]"
  by (simp add: corr_centered_def two_samples_true_def tensor_ops argmax_one_hot Let_def)

lemma corr_centered_two_pred: "corr_centered two_samples_pred = [[-2, -3], [3, 2]]"
  by (simp add: corr_centered_def two_samples_pred_def tensor_ops argmax_one_hot Let_def)

lemma pearson_corr_two: "pearson_corr two_samples_true two_samples_pred = 12 / (13 + eps)"
  by (simp add: pearson_corr_def pearson_corr_n_def pearson_corr_d_def pearson_corr_divisor_def
      corr_centered_two_true corr_centered_two_pred tensor_ops sqrt_169 Let_def eps_def)

lemma label_pearson_two: "label_pearson two_samples_true two_samples_pred = - (1 / 2) / (1 / 2 + eps)"
  by (simp add: label_pearson_def pearson_statistic_def centered_def two_samples_true_def two_samples_pred_def 
      tensor_ops argmax_one_hot Let_def sqrt_fourth eps_def)

lemma sqrt_loss: "sqrt (651249 / 4) = 807 / 2"
  by (rule real_sqrt_unique) (simp_all add: power2_eq_square)

lemma sqrt_144_49: "sqrt (144 / 49) = 12 / 7"
  by (rule real_sqrt_unique) (simp_all add: power2_eq_square)

lemma loss_centered_true: "loss_centered one_sample_true =
   [[[-11/2, -11/2, -11/2, -11/2, -11/2, -9/2, -11/2], [-11/2, -11/2, -11/2, -11/2, -11/2, -11/2, -9/2]]]"
  by (simp add: loss_centered_def one_sample_true_def tensor_ops argmax_one_hot)
     (simp add: one_hot_def)

lemma loss_centered_pred: "loss_centered one_sample_pred =
   [[[-11/2, -11/2, -11/2, -11/2, -11/2, -11/2, -9/2], [-11/2, -11/2, -11/2, -11/2, -11/2, -9/2, -11/2]]]"
  by (simp add: loss_centered_def one_sample_pred_def tensor_ops argmax_one_hot)
     (simp add: one_hot_def)

lemma pearson_loss_one: "pearson_loss one_sample_true one_sample_pred = - (803 / 2) / (807 / 2 + eps)"
  by (simp add: pearson_loss_def pearson_loss_n_def pearson_loss_d_def pearson_loss_divisor_def
      loss_centered_true loss_centered_pred tensor_ops sqrt_loss Let_def eps_def)

lemma tensor_pearson_one: "tensor_pearson one_sample_true one_sample_pred = - (2 / 7) / (12 / 7 + eps)"
  by (simp add: tensor_pearson_def pearson_statistic_def centered_def one_sample_true_def one_sample_pred_def
      one_hot_def K_mean1_def sqrt_144_49 eps_def)

text \<open>
  On a batch of one sample the mean of the label tensor is the mean of the one label
  sequence, and the metric is the Pearson statistic of the two label sequences.
\<close>

lemma single_sample_agrees: "pearson_corr [a] [b] = label_pearson [a] [b]"
  by (simp add: pearson_corr_def pearson_corr_n_def pearson_corr_d_def pearson_corr_divisor_def
      corr_centered_def label_pearson_def pearson_statistic_def centered_def tensor_ops Let_def
      zip_map_map comp_def case_prod_unfold)

text \<open>
  C3. The metric is meant to be the Pearson correlation of the true and the predicted
  label sequences, averaged over the samples. On the batch of two samples with the labels
  0, 1 and 5, 6 and the predictions 1, 0 and 6, 5, every predicted sequence runs against
  its true sequence, and the statistic of the claim is \<open>- (1/2) / (1/2 + 1e-12)\<close>, about
  \<open>-1\<close>. \<^verbatim>\<open>pearson_corr\<close> subtracts the mean of the whole batch from every
  sequence, not the mean of the sequence, and returns \<open>12 / (13 + 1e-12)\<close>, about 0.92.
\<close>

theorem pearson_corr_on_two_samples:
  "pearson_corr two_samples_true two_samples_pred = 12 / (13 + eps) \<and>
   label_pearson two_samples_true two_samples_pred = - (1 / 2) / (1 / 2 + eps) \<and>
   label_pearson two_samples_true two_samples_pred < 0 \<and>
   0 < pearson_corr two_samples_true two_samples_pred"
  by (simp add: pearson_corr_two label_pearson_two) (simp add: eps_def)

text \<open>
  C4. The loss is meant to be the negated Pearson correlation of the true and the
  predicted tensors, each centered by its own mean. On the one sample with the labels
  5, 6 and the predictions 6, 5 (one-hot), that is \<open>(2/7) / (12/7 + 1e-12)\<close>, about
  1/6. \<^verbatim>\<open>pearson_loss\<close> subtracts from each tensor the mean of its argmax labels,
  5.5, and returns \<open>- (803/2) / (807/2 + 1e-12)\<close>, below \<open>-0.99\<close>: nearly the best
  value a loss of this kind can take, on a prediction that is wrong at every timestep.
\<close>

theorem pearson_loss_on_one_sample:
  "pearson_loss one_sample_true one_sample_pred = - (803 / 2) / (807 / 2 + eps) \<and>
   - tensor_pearson one_sample_true one_sample_pred = (2 / 7) / (12 / 7 + eps) \<and>
   pearson_loss one_sample_true one_sample_pred < - (99 / 100) \<and>
   0 < - tensor_pearson one_sample_true one_sample_pred"
  by (simp add: pearson_loss_one tensor_pearson_one) (simp add: eps_def)

subsection \<open>The divisors\<close>

lemma sum_squares_nonneg: "0 \<le> sum_list (map (\<lambda>v::real. v * v) xs)"
  by (rule sum_list_nonneg) auto

lemma K_sum2_square2_nonneg: "q \<in> set (K_sum2 (K_square2 m)) \<Longrightarrow> 0 \<le> q"
  by (auto simp: K_sum2_def K_square2_def sum_squares_nonneg)

lemma K_sum2_sum3_square3_nonneg: "q \<in> set (K_sum2 (K_sum3 (K_square3 y))) \<Longrightarrow> 0 \<le> q"
  by (auto simp: K_sum2_def K_sum3_def K_square3_def comp_def intro!: sum_list_nonneg sum_squares_nonneg)

lemma mul1_nonneg:
  assumes "\<And>q. q \<in> set u \<Longrightarrow> 0 \<le> q" "\<And>q. q \<in> set v \<Longrightarrow> 0 \<le> q" "q \<in> set (mul1 u v)"
  shows "0 \<le> q"
proof -
  from assms(3) obtain a b where ab: "(a, b) \<in> set (zip u v)" and q: "q = a * b"
    by (auto simp: mul1_def)
  from ab have "a \<in> set u" "b \<in> set v"
    by (auto dest: set_zip_leftD set_zip_rightD)
  then have "0 \<le> a" "0 \<le> b" using assms(1,2) by blast+
  then show ?thesis by (simp add: q)
qed

lemma divisor_pos:
  assumes "\<And>q. q \<in> set d \<Longrightarrow> 0 \<le> q" "q \<in> set (add_scalar1 (K_sqrt d) eps)"
  shows "eps \<le> q \<and> 0 < q"
proof -
  from assms(2) obtain x where x: "x \<in> set d" and q: "q = sqrt x + eps"
    by (auto simp: add_scalar1_def K_sqrt_def)
  have e: "0 < eps" by (simp add: eps_def)
  have "0 \<le> sqrt x" using assms(1)[OF x] by simp
  with e show ?thesis unfolding q by linarith
qed

lemma pearson_corr_d_nonneg: "q \<in> set (pearson_corr_d y_true y_pred) \<Longrightarrow> 0 \<le> q"
  unfolding pearson_corr_d_def Let_def
  by (erule mul1_nonneg[rotated 2]) (rule K_sum2_square2_nonneg, assumption)+

lemma pearson_loss_d_nonneg: "q \<in> set (pearson_loss_d y_true y_pred) \<Longrightarrow> 0 \<le> q"
  unfolding pearson_loss_d_def Let_def
  by (erule mul1_nonneg[rotated 2]) (rule K_sum2_sum3_square3_nonneg, assumption)+

text \<open>
  C8. In \<^verbatim>\<open>pearson_corr\<close> and in \<^verbatim>\<open>pearson_loss\<close> every entry of \<open>d\<close> is a
  product of two sums of squares and so is not negative, and every divisor
  \<open>sqrt d + 1e-12\<close> is at least \<open>1e-12\<close>, hence positive: no division is by zero,
  whatever the tensors.
\<close>

theorem divisors_positive:
  "(\<forall>q \<in> set (pearson_corr_d y_true y_pred). 0 \<le> q) \<and>
   (\<forall>q \<in> set (pearson_corr_divisor y_true y_pred). eps \<le> q \<and> 0 < q) \<and>
   (\<forall>q \<in> set (pearson_loss_d y_true y_pred). 0 \<le> q) \<and>
   (\<forall>q \<in> set (pearson_loss_divisor y_true y_pred). eps \<le> q \<and> 0 < q)"
  using pearson_corr_d_nonneg pearson_loss_d_nonneg divisor_pos
  unfolding pearson_corr_divisor_def pearson_loss_divisor_def by blast

text \<open>
  The same at sequences without variance: constant labels for the metric, the zero
  tensor for the loss. The divisor is \<open>1e-12\<close> itself there.
\<close>

theorem divisors_positive_witness:
  "pearson_corr_divisor [[one_hot 0, one_hot 0]] [[one_hot 0, one_hot 0]] = [eps] \<and>
   pearson_loss_divisor [[[0, 0, 0, 0, 0, 0, 0]]] [[[0, 0, 0, 0, 0, 0, 0]]] = [eps] \<and>
   0 < hd (pearson_corr_divisor [[one_hot 0, one_hot 0]] [[one_hot 0, one_hot 0]]) \<and>
   0 < hd (pearson_loss_divisor [[[0, 0, 0, 0, 0, 0, 0]]] [[[0, 0, 0, 0, 0, 0, 0]]])"
proof -
  have c: "pearson_corr_divisor [[one_hot 0, one_hot 0]] [[one_hot 0, one_hot 0]] = [eps]"
    by (simp add: pearson_corr_divisor_def pearson_corr_d_def corr_centered_def tensor_ops
        argmax_one_hot Let_def)
  have l: "pearson_loss_divisor [[[0, 0, 0, 0, 0, 0, 0]]] [[[0, 0, 0, 0, 0, 0, 0]]] = [eps]"
    by (simp add: pearson_loss_divisor_def pearson_loss_d_def loss_centered_def tensor_ops
        argmax_def Let_def)
  from divisors_positive[of "[[one_hot 0, one_hot 0]]" "[[one_hot 0, one_hot 0]]"]
  have "0 < hd (pearson_corr_divisor [[one_hot 0, one_hot 0]] [[one_hot 0, one_hot 0]])"
    by (simp add: c)
  moreover from divisors_positive[of "[[[0, 0, 0, 0, 0, 0, 0]]]" "[[[0, 0, 0, 0, 0, 0, 0]]]"]
  have "0 < hd (pearson_loss_divisor [[[0, 0, 0, 0, 0, 0, 0]]] [[[0, 0, 0, 0, 0, 0, 0]]])"
    by (simp add: l)
  ultimately show ?thesis using c l by simp
qed

subsection \<open>The bin metrics\<close>

lemma argmax_scan_bound: "best < i \<Longrightarrow> argmax_scan best v i xs < i + length xs"
proof (induction xs arbitrary: best v i)
  case Nil
  then show ?case by simp
next
  case (Cons x xs)
  have a: "argmax_scan i x (Suc i) xs < Suc i + length xs"
    by (rule Cons.IH) simp
  have b: "argmax_scan best v (Suc i) xs < Suc i + length xs"
    by (rule Cons.IH) (use Cons.prems in simp)
  show ?case using a b by simp
qed

lemma argmax_less_length: "row \<noteq> [] \<Longrightarrow> argmax row < length row"
  using argmax_scan_bound[of 0 1] by (cases row) (auto simp: argmax_def)

lemma sum_of_bool_filter:
  "sum_list (map (\<lambda>r. of_bool (P r)) xs) = real (length (filter P xs))"
  by (induction xs) auto

lemma K_mean_bool_fraction: "K_mean_bool (K_equal (K_argmax y) i) = fraction_in_bin i y"
proof -
  have "concat (map (map (of_bool :: bool \<Rightarrow> real)) (K_equal (K_argmax y) i)) =
      map (\<lambda>row. of_bool (int (argmax row) = i)) (concat y)"
    by (simp add: K_equal_def K_argmax_def map_concat comp_def)
  then show ?thesis
    by (simp add: K_mean_bool_def K_mean2_def fraction_in_bin_def sum_of_bool_filter)
qed

lemma bin_percent_eq: "bin_percent i y_true y_pred = [str i \<mapsto> fraction_in_bin i y_pred]"
  by (simp add: bin_percent_def dict_def K_mean_bool_fraction)

lemma fraction_in_bin_bounds: "0 \<le> fraction_in_bin i y \<and> fraction_in_bin i y \<le> 1"
proof -
  have "length (filter (\<lambda>row. int (argmax row) = i) (concat y)) \<le> length (concat y)"
    by (rule length_filter_le)
  then show ?thesis
    by (cases "concat y = []") (simp_all add: fraction_in_bin_def divide_le_eq_1)
qed

lemma one_bin: "a < 7 \<Longrightarrow> (\<Sum>i\<leftarrow>py_range 7. (of_bool (int a = i) :: real)) = 1"
proof -
  assume "a < 7"
  then have "a = 0 \<or> a = 1 \<or> a = 2 \<or> a = 3 \<or> a = 4 \<or> a = 5 \<or> a = 6" by arith
  then show ?thesis by (auto simp: py_range_def upt_rec)
qed

lemma bins_count_all:
  assumes "\<forall>row \<in> set xs. argmax row < 7"
  shows "(\<Sum>i\<leftarrow>py_range 7. real (length (filter (\<lambda>row. int (argmax row) = i) xs))) = real (length xs)"
  using assms
proof (induction xs)
  case Nil
  show ?case by simp
next
  case (Cons x xs)
  have "(\<Sum>i\<leftarrow>py_range 7. real (length (filter (\<lambda>row. int (argmax row) = i) (x # xs)))) =
      (\<Sum>i\<leftarrow>py_range 7. of_bool (int (argmax x) = i) +
          real (length (filter (\<lambda>row. int (argmax row) = i) xs)))"
    by (rule arg_cong[where f = sum_list]) auto
  also have "\<dots> = (\<Sum>i\<leftarrow>py_range 7. of_bool (int (argmax x) = i)) +
      (\<Sum>i\<leftarrow>py_range 7. real (length (filter (\<lambda>row. int (argmax row) = i) xs)))"
    by (simp add: sum_list_addf)
  also have "\<dots> = 1 + real (length xs)"
    using Cons by (simp add: one_bin)
  finally show ?case by simp
qed

lemma sum_list_divide_const:
  "(\<Sum>i\<leftarrow>is. f i / (c::real)) = (\<Sum>i\<leftarrow>is. f i) / c"
  by (induction "is") (simp_all add: add_divide_distrib)

lemma fractions_sum_to_one:
  assumes "concat y \<noteq> []" "\<forall>row \<in> set (concat y). length row = 7"
  shows "(\<Sum>i\<leftarrow>py_range 7. fraction_in_bin i y) = 1"
proof -
  have "\<forall>row \<in> set (concat y). argmax row < 7"
  proof
    fix row assume "row \<in> set (concat y)"
    with assms(2) have "length row = 7" by blast
    moreover from this have "row \<noteq> []" by auto
    ultimately show "argmax row < 7" using argmax_less_length[of row] by simp
  qed
  then have "(\<Sum>i\<leftarrow>py_range 7. real (length (filter (\<lambda>row. int (argmax row) = i) (concat y))))
      = real (length (concat y))"
    by (rule bins_count_all)
  then show ?thesis using assms(1)
    by (simp add: fraction_in_bin_def sum_list_divide_const)
qed

text \<open>
  C10. For a prediction tensor with at least one timestep and 7 classes at every
  timestep, the metric \<^verbatim>\<open>bin_percent(i)\<close>, for \<open>i\<close> from 0 to 6, returns under
  the key \<^verbatim>\<open>str(i)\<close> the fraction of the timestep predictions whose argmax is \<open>i\<close>,
  a number between 0 and 1, and the seven values add up to 1.
\<close>

theorem bin_percent_fractions:
  assumes "concat y_pred \<noteq> []" "\<forall>row \<in> set (concat y_pred). length row = 7"
  shows "(\<forall>i \<in> set (py_range 7).
            bin_percent i y_true y_pred = [str i \<mapsto> fraction_in_bin i y_pred] \<and>
            0 \<le> fraction_in_bin i y_pred \<and> fraction_in_bin i y_pred \<le> 1) \<and>
         (\<Sum>i\<leftarrow>py_range 7. the (bin_percent i y_true y_pred (str i))) = 1"
  using fractions_sum_to_one[OF assms]
  by (simp add: bin_percent_eq fraction_in_bin_bounds)

lemma fraction_5: "fraction_in_bin 5 two_samples_pred = 1 / 4"
  by (simp add: fraction_in_bin_def two_samples_pred_def argmax_one_hot)

theorem bin_percent_fractions_witness:
  "bin_percent 5 two_samples_true two_samples_pred = [''5'' \<mapsto> 1 / 4] \<and>
   (\<Sum>i\<leftarrow>py_range 7. the (bin_percent i two_samples_true two_samples_pred (str i))) = 1"
proof -
  have ne: "concat two_samples_pred \<noteq> []"
    by (simp add: two_samples_pred_def)
  have seven: "\<forall>row \<in> set (concat two_samples_pred). length row = 7"
    by (simp add: two_samples_pred_def one_hot_def)
  have five: "5 \<in> set (py_range 7)"
    by (simp add: py_range_def upt_rec)
  from bin_percent_fractions[OF ne seven, of two_samples_true] five
  have "bin_percent 5 two_samples_true two_samples_pred = [str 5 \<mapsto> fraction_in_bin 5 two_samples_pred]"
    and "(\<Sum>i\<leftarrow>py_range 7. the (bin_percent i two_samples_true two_samples_pred (str i))) = 1"
    by blast+
  then show ?thesis by (simp add: fraction_5 str_digits)
qed

subsection \<open>The graph that \<^verbatim>\<open>build_model\<close> assembles\<close>

lemma py_range3: "py_range 3 = [0, 1, 2]"
  by (simp add: py_range_def upt_rec)

lemma flatten_call:
  "0 < n \<Longrightarrow> layer_call (Flatten (RepeatVector n (Input [1] Int32 ''dataset''))) =
     Inr (Flatten (RepeatVector n (Input [1] Int32 ''dataset'')))"
  by (simp add: layer_call_def)

lemma build_model_eq:
  assumes "0 < n"
  shows "build_model n =
     Inr \<lparr>kw_input = [Input [1] Int32 ''dataset'', Input [n, 1] Float32 ''calcium''],
          kw_output = [TimeDistributed (Dense 7 Softmax (Some L2))
            (Bidirectional (LSTM 64 True)
               (inception_cell (inception_cell (inception_cell (merged_inputs n)))))]\<rparr>"
  unfolding build_model_def Let_def flatten_call[OF assms] py_range3 merged_inputs_def
  by simp

lemma inception_cell_eq:
  "inception_cell x =
     Merge [conv_bn x 64 1,
            conv_bn (conv_bn x 48 1) 64 5,
            conv_bn (conv_bn (conv_bn x 64 1) 96 3) 96 3,
            conv_bn (AveragePooling1D 3 1 Same x) 32 1] Concat (- 1)"
  by (simp add: inception_cell_def Let_def)

lemma conv_bn_eq: "conv_bn x f k = BatchNormalization 0 1 (Convolution1D f k Relu Same x)"
  by (simp add: conv_bn_def Let_def)










subsection \<open>The output of the model\<close>

lemma output_shape_conv_bn:
  "output_shape x = Some [t, c] \<Longrightarrow> output_shape (conv_bn x f k) = Some [t, f]"
  by (simp add: conv_bn_eq)

lemma output_shape_inception_cell:
  assumes "output_shape x = Some [t, c]"
  shows "output_shape (inception_cell x) = Some [t, 256]"
proof -
  have p: "output_shape (AveragePooling1D 3 1 Same x) = Some [t, c]"
    using assms by simp
  have b1: "output_shape (conv_bn x 64 1) = Some [t, 64]"
    by (rule output_shape_conv_bn[OF assms])
  have b2: "output_shape (conv_bn (conv_bn x 48 1) 64 5) = Some [t, 64]"
    by (rule output_shape_conv_bn[OF output_shape_conv_bn[OF assms]])
  have b3: "output_shape (conv_bn (conv_bn (conv_bn x 64 1) 96 3) 96 3) = Some [t, 96]"
    by (rule output_shape_conv_bn[OF output_shape_conv_bn[OF output_shape_conv_bn[OF assms]]])
  have b4: "output_shape (conv_bn (AveragePooling1D 3 1 Same x) 32 1) = Some [t, 32]"
    by (rule output_shape_conv_bn[OF p])
  show ?thesis
    unfolding inception_cell_eq output_shape.simps list.map b1 b2 b3 b4 by simp
qed

lemma output_shape_merged_inputs: "0 < n \<Longrightarrow> output_shape (merged_inputs n) = Some [n, 2]"
  by (simp add: merged_inputs_def)

lemma output_shape_hidden:
  assumes "0 < n"
  shows "output_shape ((inception_cell ^^ 3) (merged_inputs n)) = Some [n, 256]"
  by (simp add: numeral_3_eq_3
      output_shape_inception_cell[OF output_shape_inception_cell[OF
        output_shape_inception_cell[OF output_shape_merged_inputs[OF assms]]]])

lemma output_shape_recurrent:
  assumes "0 < n"
  shows "output_shape (Bidirectional (LSTM 64 True) ((inception_cell ^^ 3) (merged_inputs n)))
    = Some [n, 128]"
  by (simp add: output_shape_hidden[OF assms])

lemma output_shape_model:
  assumes "0 < n"
  shows "output_shape (TimeDistributed (Dense 7 Softmax (Some L2))
        (Bidirectional (LSTM 64 True) ((inception_cell ^^ 3) (merged_inputs n)))) = Some [n, 7]"
  by (simp add: output_shape_hidden[OF assms])

lemma sum_exp_pos: "z \<noteq> [] \<Longrightarrow> 0 < sum_list (map exp (z::real list))"
  by (cases z) (auto intro!: add_pos_nonneg sum_list_nonneg)

lemma sum_list_divide_real:
  "(\<Sum>v\<leftarrow>z. f v / (c::real)) = (\<Sum>v\<leftarrow>z. f v) / c"
  by (induction z) (simp_all add: add_divide_distrib)

lemma softmax_length: "length (softmax z) = length z"
  by (simp add: softmax_def)

lemma softmax_nonneg: "v \<in> set (softmax z) \<Longrightarrow> 0 \<le> v"
  by (cases "z = []") (auto simp: softmax_def dest: sum_exp_pos intro!: divide_nonneg_nonneg sum_list_nonneg)

lemma softmax_sum: "z \<noteq> [] \<Longrightarrow> sum_list (softmax z) = 1"
  using sum_exp_pos[of z] by (simp add: softmax_def sum_list_divide_real)

lemma dense_call_distribution:
  assumes "built (Dense 7 Softmax r) w"
  shows "length (dense_call (Dense 7 Softmax r) w x) = 7"
    and "v \<in> set (dense_call (Dense 7 Softmax r) w x) \<Longrightarrow> 0 \<le> v"
    and "sum_list (dense_call (Dense 7 Softmax r) w x) = 1"
proof -
  let ?z = "map2 (\<lambda>col c. sum_list (map2 (*) x col) + c) (kernel w) (bias w)"
  have len: "length ?z = 7" using assms by (simp add: built_def)
  then have ne: "?z \<noteq> []" by auto
  show "length (dense_call (Dense 7 Softmax r) w x) = 7"
    using len by (simp add: softmax_length)
  show "v \<in> set (dense_call (Dense 7 Softmax r) w x) \<Longrightarrow> 0 \<le> v"
    by (simp add: softmax_nonneg)
  show "sum_list (dense_call (Dense 7 Softmax r) w x) = 1"
    using softmax_sum[OF ne] by simp
qed

text \<open>
  C2. The model, which exists from 1 timestep on, has one output, of the declared shape
  (timesteps, 7) per sample, on a layer of width 128. Whatever the weights of the dense
  layer (7 weight vectors, 7 biases) and whatever values reach it, its result has one
  sample for each sample of the batch, one row for each timestep of the sample, and
  every row has 7 entries, none negative, that add up to 1.
\<close>

theorem output_is_distribution:
  assumes "0 < n" "built (Dense 7 Softmax (Some L2)) w"
  shows "(\<exists>m. build_model n = Inr m \<and>
            kw_output m =
              [TimeDistributed (Dense 7 Softmax (Some L2))
                 (Bidirectional (LSTM 64 True) ((inception_cell ^^ 3) (merged_inputs n)))] \<and>
            map output_shape (kw_output m) = [Some [n, 7]]) \<and>
         output_shape (Bidirectional (LSTM 64 True) ((inception_cell ^^ 3) (merged_inputs n)))
           = Some [n, 128] \<and>
         length (time_distributed_call (Dense 7 Softmax (Some L2)) w hidden) = length hidden \<and>
         map length (time_distributed_call (Dense 7 Softmax (Some L2)) w hidden)
           = map length hidden \<and>
         (\<forall>sample \<in> set (time_distributed_call (Dense 7 Softmax (Some L2)) w hidden).
            \<forall>p \<in> set sample. length p = 7 \<and> (\<forall>v \<in> set p. 0 \<le> v) \<and> sum_list p = 1)"
proof -
  have out: "\<exists>m. build_model n = Inr m \<and>
            kw_output m =
              [TimeDistributed (Dense 7 Softmax (Some L2))
                 (Bidirectional (LSTM 64 True) ((inception_cell ^^ 3) (merged_inputs n)))] \<and>
            map output_shape (kw_output m) = [Some [n, 7]]"
    using output_shape_model[OF assms(1)]
    by (simp add: build_model_eq[OF assms(1)] numeral_3_eq_3)
  have dist: "\<forall>sample \<in> set (time_distributed_call (Dense 7 Softmax (Some L2)) w hidden).
            \<forall>p \<in> set sample. length p = 7 \<and> (\<forall>v \<in> set p. 0 \<le> v) \<and> sum_list p = 1"
    using dense_call_distribution[OF assms(2)]
    by (auto simp: time_distributed_call_def simp del: dense_call.simps)
  have lens: "length (time_distributed_call (Dense 7 Softmax (Some L2)) w hidden) = length hidden \<and>
         map length (time_distributed_call (Dense 7 Softmax (Some L2)) w hidden) = map length hidden"
    by (simp add: time_distributed_call_def del: dense_call.simps)
  show ?thesis using out output_shape_recurrent[OF assms(1)] lens dist by blast
qed

text \<open>
  The same at the 100 timesteps of the driver, with weights of the width of the layer
  below (128 entries per unit, unit \<open>j\<close> weighing every entry by \<open>j\<close> and biased by
  \<open>j\<close>), on a batch of two samples of different lengths.
\<close>

theorem output_is_distribution_witness:
  "built (Dense 7 Softmax (Some L2))
     \<lparr>kernel = map (\<lambda>j. replicate 128 (real j)) [0..<7], bias = map real [0..<7]\<rparr> \<and>
   (\<exists>m. build_model 100 = Inr m \<and> map output_shape (kw_output m) = [Some [100, 7]]) \<and>
   map length (time_distributed_call (Dense 7 Softmax (Some L2))
     \<lparr>kernel = map (\<lambda>j. replicate 128 (real j)) [0..<7], bias = map real [0..<7]\<rparr>
     [[replicate 128 1, replicate 128 (1 / 2)], [replicate 128 (- 1)]]) = [2, 1] \<and>
   length (dense_call (Dense 7 Softmax (Some L2))
     \<lparr>kernel = map (\<lambda>j. replicate 128 (real j)) [0..<7], bias = map real [0..<7]\<rparr>
     (replicate 128 (1 / 2))) = 7 \<and>
   sum_list (dense_call (Dense 7 Softmax (Some L2))
     \<lparr>kernel = map (\<lambda>j. replicate 128 (real j)) [0..<7], bias = map real [0..<7]\<rparr>
     (replicate 128 (1 / 2))) = 1"
proof -
  let ?w = "\<lparr>kernel = map (\<lambda>j. replicate 128 (real j)) [0..<7], bias = map real [0..<7]\<rparr>"
  let ?h = "[[replicate 128 1, replicate 128 (1 / 2)], [replicate 128 (- 1 :: real)]]"
  have b: "built (Dense 7 Softmax (Some L2)) ?w"
    by (simp add: built_def)
  have pos: "0 < (100::nat)" by simp
  note inst = output_is_distribution[OF pos b, of ?h]
  from inst[THEN conjunct1] obtain m where
    "build_model 100 = Inr m" "map output_shape (kw_output m) = [Some [100, 7]]"
    by (elim exE conjE)
  then have m: "\<exists>m. build_model 100 = Inr m \<and> map output_shape (kw_output m) = [Some [100, 7]]"
    by (intro exI conjI)
  have l: "map length (time_distributed_call (Dense 7 Softmax (Some L2)) ?w ?h) = [2, 1]"
    using inst[THEN conjunct2, THEN conjunct2, THEN conjunct2, THEN conjunct1] by simp
  note dist = inst[THEN conjunct2, THEN conjunct2, THEN conjunct2, THEN conjunct2]
  have timestep: "dense_call (Dense 7 Softmax (Some L2)) ?w (replicate 128 (1 / 2))
      \<in> set (hd (time_distributed_call (Dense 7 Softmax (Some L2)) ?w ?h))"
    by (simp add: time_distributed_call_def del: dense_call.simps)
  have sample: "hd (time_distributed_call (Dense 7 Softmax (Some L2)) ?w ?h)
      \<in> set (time_distributed_call (Dense 7 Softmax (Some L2)) ?w ?h)"
    by (simp add: time_distributed_call_def del: dense_call.simps)
  note row = bspec[OF bspec[OF dist sample] timestep]
  have seven: "length (dense_call (Dense 7 Softmax (Some L2)) ?w (replicate 128 (1 / 2))) = 7"
    by (rule row[THEN conjunct1])
  have one: "sum_list (dense_call (Dense 7 Softmax (Some L2)) ?w (replicate 128 (1 / 2))) = 1"
    by (rule row[THEN conjunct2, THEN conjunct2])
  from b m l seven one show ?thesis by (intro conjI)
qed

subsection \<open>The embedding of the dataset id\<close>










end
